theory Spec2Isabelle
  imports Main
begin

section \<open>Time values of the Go library\<close>

text \<open>
  \<^verbatim>\<open>main.go\<close> holds two listings of the program. The listing at lines 198-389
  (threshold \<^verbatim>\<open>expiryThreshold\<close>, 30 days) is modelled under the source's own names.
  The listing at lines 1-197 (threshold \<^verbatim>\<open>notifyExpiryThreshold\<close>, 28 days) differs in
  the threshold, in the wording of three classification strings and in printing the
  report; where one of its functions has the name of a function of the other listing
  and a different body, its model carries the suffix \<open>_A\<close>.

  A \<^verbatim>\<open>time.Duration\<close> is an \<^verbatim>\<open>int64\<close> count of nanoseconds. It is modelled as an
  \<open>int\<close>; the only durations the program computes are results of \<^verbatim>\<open>Time.Sub\<close>, which
  saturates at the ends of the \<^verbatim>\<open>int64\<close> range, and quotients of those by a positive
  constant, so no operation on them wraps. A \<^verbatim>\<open>time.Time\<close> is modelled as the instant
  it denotes, in nanoseconds since the Unix epoch.
\<close>

type_synonym Duration = int
type_synonym Time = int

definition Nanosecond :: Duration where "Nanosecond = 1"
definition Microsecond :: Duration where "Microsecond = 1000 * Nanosecond"
definition Millisecond :: Duration where "Millisecond = 1000 * Microsecond"
definition Second :: Duration where "Second = 1000 * Millisecond"
definition Minute :: Duration where "Minute = 60 * Second"
definition Hour :: Duration where "Hour = 60 * Minute"

definition minDuration :: Duration where "minDuration = - (2 ^ 63)"
definition maxDuration :: Duration where "maxDuration = 2 ^ 63 - 1"

text \<open>
  \<^verbatim>\<open>t.Sub(u)\<close>: the duration \<open>t - u\<close>; when that exceeds the largest (smallest) value
  a \<^verbatim>\<open>Duration\<close> can store, the largest (smallest) duration. The current time carries
  a monotonic clock reading and a certificate's \<^verbatim>\<open>NotAfter\<close> does not, so the
  difference is one of wall clock instants.
\<close>

definition Sub :: "Time \<Rightarrow> Time \<Rightarrow> Duration" where
  "Sub t u =
     (if t - u > maxDuration then maxDuration
      else if t - u < minDuration then minDuration
      else t - u)"

text \<open>The zero \<^verbatim>\<open>time.Time{}\<close>: January 1, year 1, 00:00:00 UTC.\<close>

definition zeroTime :: Time where
  "zeroTime = - 62135596800 * Second"

text \<open>Go's integer division truncates towards zero.\<close>

definition quo :: "int \<Rightarrow> int \<Rightarrow> int" where
  "quo a b = (if (a < 0) = (b < 0) then \<bar>a\<bar> div \<bar>b\<bar> else - (\<bar>a\<bar> div \<bar>b\<bar>))"

section \<open>Formatting\<close>

text \<open>
  The verb \<^verbatim>\<open>%d\<close> of \<^verbatim>\<open>fmt.Sprintf\<close>: the decimal digits of the integer, most
  significant first, after a minus sign when it is negative. (The \<^verbatim>\<open>String\<close> method of
  \<^verbatim>\<open>Duration\<close> is used by the verbs for strings only, not by \<^verbatim>\<open>%d\<close>.)
\<close>

definition digit :: "nat \<Rightarrow> char" where
  "digit d = char_of (48 + d)"

function fmtUint :: "nat \<Rightarrow> string" where
  "fmtUint u = (if u < 10 then [digit u] else fmtUint (u div 10) @ [digit (u mod 10)])"
  by pat_completeness auto
termination
  by (relation "measure id") auto

declare fmtUint.simps [simp del]

definition fmtInt :: "int \<Rightarrow> string" where
  "fmtInt n = (if n < 0 then CHR ''-'' # fmtUint (nat (- n)) else fmtUint (nat n))"

text \<open>\<^verbatim>\<open>pluralize\<close>, lines 183-188 and 375-380.\<close>

definition pluralize :: "int \<Rightarrow> string \<Rightarrow> string" where
  "pluralize n noun = (if n = 1 then noun else noun @ ''s'')"

section \<open>Classification\<close>

definition expiryThreshold :: Duration where
  "expiryThreshold = 30 * 24 * Hour"

definition notifyExpiryThreshold :: Duration where
  "notifyExpiryThreshold = 28 * 24 * Hour"

text \<open>\<^verbatim>\<open>expiryInfo\<close>, lines 323-336.\<close>

definition expiryInfo :: "Time \<Rightarrow> Time \<Rightarrow> string" where
  "expiryInfo end' now =
     (let gap = Sub end' now in
      if gap > expiryThreshold then ''ok''
      else if gap < 0 then ''already expired''
      else if gap < 24 * Hour then ''expires in less than a day''
      else
        (let n = quo gap (24 * Hour) in
         ''expires in '' @ fmtInt n @ '' '' @ pluralize n ''day''))"

text \<open>\<^verbatim>\<open>expiryInfo\<close>, lines 134-147.\<close>

definition expiryInfo_A :: "Time \<Rightarrow> Time \<Rightarrow> string" where
  "expiryInfo_A end' now =
     (let gap = Sub end' now in
      if gap > notifyExpiryThreshold then ''good''
      else if gap < 0 then ''expired''
      else if gap < 24 * Hour then ''expires in less than 24h''
      else
        (let n = quo gap (24 * Hour) in
         ''expires in '' @ fmtInt n @ '' '' @ pluralize n ''day''))"

section \<open>Probe results\<close>

text \<open>
  A Go \<^verbatim>\<open>error\<close> is used by the program through \<^verbatim>\<open>!= nil\<close> and through its method
  \<^verbatim>\<open>Error()\<close> only: an error value is modelled by its description, and a possibly
  \<^verbatim>\<open>nil\<close> error by an \<open>option\<close>. \<^verbatim>\<open>errors.New\<close> makes the error with the given text.
\<close>

datatype error = errorString (Error: string)

definition New :: "string \<Rightarrow> error" where
  "New text = errorString text"

text \<open>\<^verbatim>\<open>type Item struct\<close>, lines 107-111 and 296-300.\<close>

record Item =
  domain :: string
  end' :: Time
  err :: "error option"

text \<open>\<^verbatim>\<open>Item.needsNotify\<close>, lines 302-310.\<close>

definition needsNotify :: "Item \<Rightarrow> Time \<Rightarrow> bool" where
  "needsNotify i now =
     (if err i \<noteq> None then True
      else if Sub (end' i) now > expiryThreshold then False
      else True)"

text \<open>\<^verbatim>\<open>Item.needsNotify\<close>, lines 113-121.\<close>

definition needsNotify_A :: "Item \<Rightarrow> Time \<Rightarrow> bool" where
  "needsNotify_A i now =
     (if err i \<noteq> None then True
      else if Sub (end' i) now > notifyExpiryThreshold then False
      else True)"

text \<open>
  \<^verbatim>\<open>Item.format\<close>, lines 312-321: the builder receives the domain and \<^verbatim>\<open>": "\<close>, then
  the error's description or the expiry information.
\<close>

definition format :: "Item \<Rightarrow> Time \<Rightarrow> string" where
  "format i now =
     (let w = domain i @ '': '' in
      case err i of
        Some e \<Rightarrow> w @ Error e
      | None \<Rightarrow> w @ expiryInfo (end' i) now)"

text \<open>\<^verbatim>\<open>Item.format\<close>, lines 123-132.\<close>

definition format_A :: "Item \<Rightarrow> Time \<Rightarrow> string" where
  "format_A i now =
     (let w = domain i @ '': '' in
      case err i of
        Some e \<Rightarrow> w @ Error e
      | None \<Rightarrow> w @ expiryInfo_A (end' i) now)"

section \<open>The report\<close>

text \<open>
  \<^verbatim>\<open>mailBody\<close>, lines 281-288, and \<^verbatim>\<open>resultsBody\<close>, lines 92-99: a loop over the items
  that appends to a buffer, empty at first, the formatted item and a newline byte.
\<close>

definition mailBody :: "Item list \<Rightarrow> Time \<Rightarrow> string" where
  "mailBody items now =
     fold (\<lambda>i buf. (buf @ format i now) @ [CHR ''\<newline>'']) items []"

definition resultsBody :: "Item list \<Rightarrow> Time \<Rightarrow> string" where
  "resultsBody items now =
     fold (\<lambda>i buf. (buf @ format_A i now) @ [CHR ''\<newline>'']) items []"

text \<open>\<^verbatim>\<open>all\<close>, lines 190-197 and 382-389.\<close>

fun all :: "'e list \<Rightarrow> ('e \<Rightarrow> bool) \<Rightarrow> bool" where
  "all [] f = True"
| "all (v # s) f = (if \<not> f v then False else all s f)"

section \<open>The probe\<close>

text \<open>
  What \<^verbatim>\<open>DialContext\<close> gives within the timeout of five seconds is the network's
  answer, an input of the model: an error (connection failure, handshake failure,
  deadline exceeded), or a connection whose state holds the certificates the peer
  presented.
\<close>

record Certificate =
  Subject :: string
  Issuer :: string
  NotBefore :: Time
  NotAfter :: Time

datatype dialResult = DialError error | Conn (PeerCertificates: "Certificate list")

text \<open>\<^verbatim>\<open>check\<close>, lines 338-361; \<^verbatim>\<open>getCertEnd\<close>, lines 149-172, has the same body.\<close>

definition check :: "(string \<Rightarrow> dialResult) \<Rightarrow> string \<Rightarrow> Time \<times> error option" where
  "check DialContext d =
     (case DialContext (d @ '':443'') of
        DialError e \<Rightarrow> (zeroTime, Some e)
      | Conn cs \<Rightarrow>
          if length cs = 0 then (zeroTime, Some (New ''no peer certificates''))
          else (let leaf = cs ! 0 in (NotAfter leaf, None)))"

definition getCertEnd :: "(string \<Rightarrow> dialResult) \<Rightarrow> string \<Rightarrow> Time \<times> error option" where
  "getCertEnd DialContext domain' =
     (case DialContext (domain' @ '':443'') of
        DialError e \<Rightarrow> (zeroTime, Some e)
      | Conn cs \<Rightarrow>
          if length cs = 0 then (zeroTime, Some (New ''no peer certificates''))
          else (let leaf = cs ! 0 in (NotAfter leaf, None)))"

section \<open>The run\<close>

text \<open>
  The input stream as the line scanner sees it: the lines it yields before it stops,
  and the error it stopped with, if any. \<^verbatim>\<open>strings.TrimSpace\<close> is a parameter.
\<close>

record Reader =
  lines :: "string list"
  scanErr :: "error option"

text \<open>\<^verbatim>\<open>domains\<close>, lines 363-373.\<close>

definition domains :: "(string \<Rightarrow> string) \<Rightarrow> Reader \<Rightarrow> error + string list" where
  "domains TrimSpace r =
     (let out = map TrimSpace (lines r) in
      case scanErr r of Some e \<Rightarrow> Inl e | None \<Rightarrow> Inr out)"

text \<open>\<^verbatim>\<open>domains\<close>, lines 174-181.\<close>

definition domains_A :: "(string \<Rightarrow> string) \<Rightarrow> Reader \<Rightarrow> string list \<times> error option" where
  "domains_A TrimSpace r = (map TrimSpace (lines r), scanErr r)"

definition mailSubject :: string where
  "mailSubject = ''notafter: domain cert expiries''"

text \<open>
  \<^verbatim>\<open>sendMail\<close>, lines 290-294 and 101-105: runs \<^verbatim>\<open>mail\<close> with the body on its standard
  input. Running a command is an input of the model: from the argument vector and the
  standard input to the error of \<^verbatim>\<open>cmd.Run\<close>.
\<close>

definition sendMail :: "(string list \<Rightarrow> string \<Rightarrow> error option) \<Rightarrow> string \<Rightarrow> string \<Rightarrow> error option" where
  "sendMail Run recipient body = Run [''mail'', ''-s'', mailSubject, recipient] body"

text \<open>\<^verbatim>\<open>notify\<close>, lines 277-279.\<close>

definition notify :: "(string list \<Rightarrow> string \<Rightarrow> error option) \<Rightarrow> Item list \<Rightarrow> Time \<Rightarrow> string \<Rightarrow> error option" where
  "notify Run items now recipient = sendMail Run recipient (mailBody items now)"

text \<open>
  What a run does to the world: the exit status, what it wrote to standard output and
  to standard error, the addresses it dialled and the commands it ran, each with its
  standard input.
\<close>

record Outcome =
  status :: int
  stdout :: string
  stderr :: string
  dialled :: "string list"
  ran :: "(string list \<times> string) list"

definition usage :: string where
  "usage = ''usage: notafter [<recipient>] < domains.txt\<newline>''"

text \<open>
  \<^verbatim>\<open>log.Fatal\<close> with the prefix \<^verbatim>\<open>"notafter: "\<close> and no flags: writes the prefix and the
  message to standard error, with a newline unless the message ends in one, and exits
  with status 1.
\<close>

definition logOutput :: "string \<Rightarrow> string" where
  "logOutput s =
     ''notafter: '' @ s @
     (if length s = 0 \<or> s ! (length s - 1) \<noteq> CHR ''\<newline>'' then [CHR ''\<newline>''] else [])"

definition Fatal :: "string \<Rightarrow> Outcome \<Rightarrow> Outcome" where
  "Fatal s w = w\<lparr>status := 1, stderr := stderr w @ logOutput s\<rparr>"

definition start :: Outcome where
  "start = \<lparr>status = 0, stdout = [], stderr = [], dialled = [], ran = []\<rparr>"

text \<open>
  The fan-out of \<^verbatim>\<open>main\<close>, lines 254-265 and 62-73: one goroutine for each index, which
  probes the domain at that index and stores the result in the slot of that index;
  \<^verbatim>\<open>main\<close> goes on when all are done. \<open>net idx\<close> is the network's answer to the dial of
  goroutine \<open>idx\<close>.
\<close>

definition probeAll :: "(nat \<Rightarrow> string \<Rightarrow> dialResult) \<Rightarrow> string list \<Rightarrow> Item list" where
  "probeAll net ds =
     map (\<lambda>idx. case check (net idx) (ds ! idx) of
                  (t, e) \<Rightarrow> \<lparr>domain = ds ! idx, end' = t, err = e\<rparr>)
         [0 ..< length ds]"

definition probeAll_A :: "(nat \<Rightarrow> string \<Rightarrow> dialResult) \<Rightarrow> string list \<Rightarrow> Item list" where
  "probeAll_A net ds =
     map (\<lambda>idx. case getCertEnd (net idx) (ds ! idx) of
                  (t, e) \<Rightarrow> \<lparr>domain = ds ! idx, end' = t, err = e\<rparr>)
         [0 ..< length ds]"

text \<open>
  \<^verbatim>\<open>main\<close>, lines 229-275, from the return of \<^verbatim>\<open>flag.Parse\<close> on: \<open>args\<close> are the
  arguments that are not flags, \<open>now\<close> is the reading of \<^verbatim>\<open>time.Now\<close>.
\<close>

definition main ::
  "(string \<Rightarrow> string) \<Rightarrow> string list \<Rightarrow> Time \<Rightarrow> Reader \<Rightarrow> (nat \<Rightarrow> string \<Rightarrow> dialResult) \<Rightarrow>
   (string list \<Rightarrow> string \<Rightarrow> error option) \<Rightarrow> Outcome" where
  "main TrimSpace args now stdin net Run =
     (if length args \<noteq> 1 then start\<lparr>stderr := usage, status := 2\<rparr>
      else
        let recipient = args ! 0 in
        case domains TrimSpace stdin of
          Inl e \<Rightarrow> Fatal (Error e) start
        | Inr ds \<Rightarrow>
            if length ds = 0 then Fatal ''no domains'' start
            else
              let items = probeAll net ds;
                  w = start\<lparr>dialled := map (\<lambda>d. d @ '':443'') ds\<rparr>;
                  noNotify = (\<lambda>i. \<not> needsNotify i now)
              in
              if all items noNotify then w\<lparr>status := 0\<rparr>
              else
                let w = w\<lparr>ran := [([''mail'', ''-s'', mailSubject, recipient], mailBody items now)]\<rparr>
                in case notify Run items now recipient of
                     Some e \<Rightarrow> Fatal (Error e) w
                   | None \<Rightarrow> w)"

text \<open>\<^verbatim>\<open>main\<close>, lines 37-90: the report is printed before it is mailed.\<close>

definition main_A ::
  "(string \<Rightarrow> string) \<Rightarrow> string list \<Rightarrow> Time \<Rightarrow> Reader \<Rightarrow> (nat \<Rightarrow> string \<Rightarrow> dialResult) \<Rightarrow>
   (string list \<Rightarrow> string \<Rightarrow> error option) \<Rightarrow> Outcome" where
  "main_A TrimSpace args now stdin net Run =
     (if length args \<noteq> 1 then start\<lparr>stderr := usage, status := 2\<rparr>
      else
        let recipient = args ! 0 in
        case domains_A TrimSpace stdin of
          (ds, Some e) \<Rightarrow> Fatal (Error e) start
        | (ds, None) \<Rightarrow>
            if length ds = 0 then Fatal ''no domains'' start
            else
              let items = probeAll_A net ds;
                  w = start\<lparr>dialled := map (\<lambda>d. d @ '':443'') ds\<rparr>;
                  noNotify = (\<lambda>i. \<not> needsNotify_A i now)
              in
              if all items noNotify then w\<lparr>status := 0\<rparr>
              else
                let body = resultsBody items now;
                    w = w\<lparr>stdout := stdout w @ body\<rparr>;
                    w = w\<lparr>ran := [([''mail'', ''-s'', mailSubject, recipient], body)]\<rparr>
                in case sendMail Run recipient body of
                     Some e \<Rightarrow> Fatal (Error e) w
                   | None \<Rightarrow> w)"

section \<open>Durations and the buckets of the classification\<close>

lemma day_val: "24 * Hour = 86400000000000"
  by (simp add: Hour_def Minute_def Second_def Millisecond_def Microsecond_def Nanosecond_def)

lemma expiryThreshold_val: "expiryThreshold = 2592000000000000"
  by (simp add: expiryThreshold_def Hour_def Minute_def Second_def Millisecond_def
      Microsecond_def Nanosecond_def)

lemma notifyExpiryThreshold_val: "notifyExpiryThreshold = 2419200000000000"
  by (simp add: notifyExpiryThreshold_def Hour_def Minute_def Second_def Millisecond_def
      Microsecond_def Nanosecond_def)

text \<open>The result of \<open>Sub\<close> is a value of \<^verbatim>\<open>int64\<close>.\<close>

lemma Sub_range: "minDuration \<le> Sub t u \<and> Sub t u \<le> maxDuration"
  by (simp add: Sub_def minDuration_def maxDuration_def)

text \<open>On a dividend that is not negative, truncation is the floor.\<close>

lemma quo_nonneg: "0 \<le> a \<Longrightarrow> 0 < b \<Longrightarrow> quo a b = a div b"
  by (simp add: quo_def)

lemma expiryInfo_buckets:
  "expiryInfo e now =
     (if Sub e now > expiryThreshold then ''ok''
      else if Sub e now < 0 then ''already expired''
      else if Sub e now < 24 * Hour then ''expires in less than a day''
      else ''expires in '' @ fmtInt (Sub e now div (24 * Hour)) @ '' '' @
           (if Sub e now div (24 * Hour) = 1 then ''day'' else ''days''))"
  by (simp add: expiryInfo_def Let_def quo_nonneg day_val pluralize_def)

lemma expiryInfo_A_buckets:
  "expiryInfo_A e now =
     (if Sub e now > notifyExpiryThreshold then ''good''
      else if Sub e now < 0 then ''expired''
      else if Sub e now < 24 * Hour then ''expires in less than 24h''
      else ''expires in '' @ fmtInt (Sub e now div (24 * Hour)) @ '' '' @
           (if Sub e now div (24 * Hour) = 1 then ''day'' else ''days''))"
  by (simp add: expiryInfo_A_def Let_def quo_nonneg day_val pluralize_def)

text \<open>
  Claim C1, as the code has it. The threshold \<open>T\<close> is a constant of the program and the
  wording is that of the listing. With \<open>g = Sub (end' i) now\<close> the gap of an item,
  \<open>format\<close> writes the domain, \<^verbatim>\<open>": "\<close> and: the description of the error when there is
  one; otherwise, in the listing with \<open>T\<close> of 30 days, \<^verbatim>\<open>ok\<close> when \<open>g > T\<close>,
  \<^verbatim>\<open>already expired\<close> when \<open>g < 0\<close>, \<^verbatim>\<open>expires in less than a day\<close> when
  \<open>0 \<le> g < 24h\<close>, and \<^verbatim>\<open>expires in N day(s)\<close> when \<open>24h \<le> g \<le> T\<close>; in the listing
  with \<open>T\<close> of 28 days, \<^verbatim>\<open>good\<close>, \<^verbatim>\<open>expired\<close>, \<^verbatim>\<open>expires in less than 24h\<close> and
  \<^verbatim>\<open>expires in N day(s)\<close> under the same conditions. In each listing the five
  conditions leave no input out, and no two of them hold together, since the five
  results differ.
\<close>

theorem classification_table:
  "(\<forall>e. err i = Some e \<longrightarrow> format i now = domain i @ '': '' @ Error e) \<and>
   (err i = None \<and> Sub (end' i) now > expiryThreshold \<longrightarrow>
      expiryInfo (end' i) now = ''ok'' \<and> format i now = domain i @ '': ok'') \<and>
   (err i = None \<and> Sub (end' i) now < 0 \<longrightarrow>
      expiryInfo (end' i) now = ''already expired'' \<and>
      format i now = domain i @ '': already expired'') \<and>
   (err i = None \<and> 0 \<le> Sub (end' i) now \<and> Sub (end' i) now < 24 * Hour \<longrightarrow>
      expiryInfo (end' i) now = ''expires in less than a day'' \<and>
      format i now = domain i @ '': expires in less than a day'') \<and>
   (err i = None \<and> 24 * Hour \<le> Sub (end' i) now \<and> Sub (end' i) now \<le> expiryThreshold \<longrightarrow>
      expiryInfo (end' i) now =
        ''expires in '' @ fmtInt (Sub (end' i) now div (24 * Hour)) @ '' '' @
        (if Sub (end' i) now div (24 * Hour) = 1 then ''day'' else ''days'') \<and>
      format i now = domain i @ '': '' @ expiryInfo (end' i) now) \<and>
   (err i \<noteq> None \<or> Sub (end' i) now > expiryThreshold \<or> Sub (end' i) now < 0 \<or>
    (0 \<le> Sub (end' i) now \<and> Sub (end' i) now < 24 * Hour) \<or>
    (24 * Hour \<le> Sub (end' i) now \<and> Sub (end' i) now \<le> expiryThreshold)) \<and>
   (\<forall>e. err i = Some e \<longrightarrow> format_A i now = domain i @ '': '' @ Error e) \<and>
   (err i = None \<and> Sub (end' i) now > notifyExpiryThreshold \<longrightarrow>
      expiryInfo_A (end' i) now = ''good'' \<and> format_A i now = domain i @ '': good'') \<and>
   (err i = None \<and> Sub (end' i) now < 0 \<longrightarrow>
      expiryInfo_A (end' i) now = ''expired'' \<and>
      format_A i now = domain i @ '': expired'') \<and>
   (err i = None \<and> 0 \<le> Sub (end' i) now \<and> Sub (end' i) now < 24 * Hour \<longrightarrow>
      expiryInfo_A (end' i) now = ''expires in less than 24h'' \<and>
      format_A i now = domain i @ '': expires in less than 24h'') \<and>
   (err i = None \<and> 24 * Hour \<le> Sub (end' i) now \<and>
    Sub (end' i) now \<le> notifyExpiryThreshold \<longrightarrow>
      expiryInfo_A (end' i) now =
        ''expires in '' @ fmtInt (Sub (end' i) now div (24 * Hour)) @ '' '' @
        (if Sub (end' i) now div (24 * Hour) = 1 then ''day'' else ''days'') \<and>
      format_A i now = domain i @ '': '' @ expiryInfo_A (end' i) now) \<and>
   (err i \<noteq> None \<or> Sub (end' i) now > notifyExpiryThreshold \<or> Sub (end' i) now < 0 \<or>
    (0 \<le> Sub (end' i) now \<and> Sub (end' i) now < 24 * Hour) \<or>
    (24 * Hour \<le> Sub (end' i) now \<and> Sub (end' i) now \<le> notifyExpiryThreshold))"
proof -
  have fmt: "format i now =
      domain i @ '': '' @ (case err i of Some e \<Rightarrow> Error e | None \<Rightarrow> expiryInfo (end' i) now)"
    by (simp add: format_def Let_def split: option.split)
  have fmt_A: "format_A i now =
      domain i @ '': '' @ (case err i of Some e \<Rightarrow> Error e | None \<Rightarrow> expiryInfo_A (end' i) now)"
    by (simp add: format_A_def Let_def split: option.split)
  have T: "24 * Hour \<le> expiryThreshold" "24 * Hour \<le> notifyExpiryThreshold"
    by (simp_all add: expiryThreshold_val notifyExpiryThreshold_val day_val)
  have D: "(0::int) < 24 * Hour"
    by (simp add: day_val)
  have B: "(\<forall>e. err i = Some e \<longrightarrow> format i now = domain i @ '': '' @ Error e) \<and>
   (err i = None \<and> Sub (end' i) now > expiryThreshold \<longrightarrow>
      expiryInfo (end' i) now = ''ok'' \<and> format i now = domain i @ '': ok'') \<and>
   (err i = None \<and> Sub (end' i) now < 0 \<longrightarrow>
      expiryInfo (end' i) now = ''already expired'' \<and>
      format i now = domain i @ '': already expired'') \<and>
   (err i = None \<and> 0 \<le> Sub (end' i) now \<and> Sub (end' i) now < 24 * Hour \<longrightarrow>
      expiryInfo (end' i) now = ''expires in less than a day'' \<and>
      format i now = domain i @ '': expires in less than a day'') \<and>
   (err i = None \<and> 24 * Hour \<le> Sub (end' i) now \<and> Sub (end' i) now \<le> expiryThreshold \<longrightarrow>
      expiryInfo (end' i) now =
        ''expires in '' @ fmtInt (Sub (end' i) now div (24 * Hour)) @ '' '' @
        (if Sub (end' i) now div (24 * Hour) = 1 then ''day'' else ''days'') \<and>
      format i now = domain i @ '': '' @ expiryInfo (end' i) now) \<and>
   (err i \<noteq> None \<or> Sub (end' i) now > expiryThreshold \<or> Sub (end' i) now < 0 \<or>
    (0 \<le> Sub (end' i) now \<and> Sub (end' i) now < 24 * Hour) \<or>
    (24 * Hour \<le> Sub (end' i) now \<and> Sub (end' i) now \<le> expiryThreshold))"
    using T(1) D by (auto simp: fmt expiryInfo_buckets)
  have A: "(\<forall>e. err i = Some e \<longrightarrow> format_A i now = domain i @ '': '' @ Error e) \<and>
   (err i = None \<and> Sub (end' i) now > notifyExpiryThreshold \<longrightarrow>
      expiryInfo_A (end' i) now = ''good'' \<and> format_A i now = domain i @ '': good'') \<and>
   (err i = None \<and> Sub (end' i) now < 0 \<longrightarrow>
      expiryInfo_A (end' i) now = ''expired'' \<and>
      format_A i now = domain i @ '': expired'') \<and>
   (err i = None \<and> 0 \<le> Sub (end' i) now \<and> Sub (end' i) now < 24 * Hour \<longrightarrow>
      expiryInfo_A (end' i) now = ''expires in less than 24h'' \<and>
      format_A i now = domain i @ '': expires in less than 24h'') \<and>
   (err i = None \<and> 24 * Hour \<le> Sub (end' i) now \<and>
    Sub (end' i) now \<le> notifyExpiryThreshold \<longrightarrow>
      expiryInfo_A (end' i) now =
        ''expires in '' @ fmtInt (Sub (end' i) now div (24 * Hour)) @ '' '' @
        (if Sub (end' i) now div (24 * Hour) = 1 then ''day'' else ''days'') \<and>
      format_A i now = domain i @ '': '' @ expiryInfo_A (end' i) now) \<and>
   (err i \<noteq> None \<or> Sub (end' i) now > notifyExpiryThreshold \<or> Sub (end' i) now < 0 \<or>
    (0 \<le> Sub (end' i) now \<and> Sub (end' i) now < 24 * Hour) \<or>
    (24 * Hour \<le> Sub (end' i) now \<and> Sub (end' i) now \<le> notifyExpiryThreshold))"
    using T(2) D by (auto simp: fmt_A expiryInfo_A_buckets)
  show ?thesis
    by (rule conjI [OF B A, unfolded conj_assoc])
qed

theorem classification_table_witness:
  "format \<lparr>domain = ''b.example'', end' = zeroTime, err = Some (New ''timeout'')\<rparr> 0 =
     ''b.example: timeout'' \<and>
   format \<lparr>domain = ''a.example'', end' = 1440 * Hour, err = None\<rparr> 0 = ''a.example: ok'' \<and>
   format \<lparr>domain = ''a.example'', end' = - Hour, err = None\<rparr> 0 =
     ''a.example: already expired'' \<and>
   format \<lparr>domain = ''a.example'', end' = 18 * Hour, err = None\<rparr> 0 =
     ''a.example: expires in less than a day'' \<and>
   format \<lparr>domain = ''a.example'', end' = 240 * Hour, err = None\<rparr> 0 =
     ''a.example: expires in 10 days'' \<and>
   format_A \<lparr>domain = ''b.example'', end' = zeroTime, err = Some (New ''timeout'')\<rparr> 0 =
     ''b.example: timeout'' \<and>
   format_A \<lparr>domain = ''a.example'', end' = 1440 * Hour, err = None\<rparr> 0 = ''a.example: good'' \<and>
   format_A \<lparr>domain = ''a.example'', end' = - Hour, err = None\<rparr> 0 = ''a.example: expired'' \<and>
   format_A \<lparr>domain = ''a.example'', end' = 18 * Hour, err = None\<rparr> 0 =
     ''a.example: expires in less than 24h'' \<and>
   format_A \<lparr>domain = ''a.example'', end' = 240 * Hour, err = None\<rparr> 0 =
     ''a.example: expires in 10 days''"
proof -
  have g1: "Sub (1440 * Hour) 0 > expiryThreshold" "Sub (1440 * Hour) 0 > notifyExpiryThreshold"
    by code_simp+
  have g2: "Sub (- Hour) 0 < 0"
    by code_simp
  have g3: "0 \<le> Sub (18 * Hour) 0 \<and> Sub (18 * Hour) 0 < 24 * Hour"
    by code_simp
  have g4: "24 * Hour \<le> Sub (240 * Hour) 0 \<and> Sub (240 * Hour) 0 \<le> expiryThreshold"
      "Sub (240 * Hour) 0 \<le> notifyExpiryThreshold"
    by code_simp+
  have n: "Sub (240 * Hour) 0 div (24 * Hour) = 10"
    by code_simp
  have d: "fmtInt 10 = ''10''"
    by code_simp
  show ?thesis
    using classification_table [of "\<lparr>domain = ''b.example'', end' = zeroTime, err = Some (New ''timeout'')\<rparr>" 0]
      classification_table [of "\<lparr>domain = ''a.example'', end' = 1440 * Hour, err = None\<rparr>" 0]
      classification_table [of "\<lparr>domain = ''a.example'', end' = - Hour, err = None\<rparr>" 0]
      classification_table [of "\<lparr>domain = ''a.example'', end' = 18 * Hour, err = None\<rparr>" 0]
      classification_table [of "\<lparr>domain = ''a.example'', end' = 240 * Hour, err = None\<rparr>" 0]
      g1 g2 g3 g4
    by (simp add: n d New_def)
qed

text \<open>
  In the listing at lines 1-197 three of the strings are not those of the claim: an item
  free of error with a gap of 60 days is \<^verbatim>\<open>good\<close>, not \<^verbatim>\<open>ok\<close>; with a gap of minus one
  hour it is \<^verbatim>\<open>expired\<close>, not \<^verbatim>\<open>already expired\<close>; with a gap of 18 hours it is
  \<^verbatim>\<open>expires in less than 24h\<close>, not \<^verbatim>\<open>expires in less than a day\<close>.
\<close>

theorem classification_table_counterexample:
  "Sub (1440 * Hour) 0 > notifyExpiryThreshold \<and>
   expiryInfo_A (1440 * Hour) 0 = ''good'' \<and>
   expiryInfo_A (1440 * Hour) 0 \<noteq> ''ok'' \<and>
   format_A \<lparr>domain = ''a.example'', end' = 1440 * Hour, err = None\<rparr> 0 \<noteq> ''a.example: ok'' \<and>
   Sub (- Hour) 0 < 0 \<and>
   expiryInfo_A (- Hour) 0 = ''expired'' \<and>
   expiryInfo_A (- Hour) 0 \<noteq> ''already expired'' \<and>
   0 \<le> Sub (18 * Hour) 0 \<and> Sub (18 * Hour) 0 < 24 * Hour \<and>
   expiryInfo_A (18 * Hour) 0 = ''expires in less than 24h'' \<and>
   expiryInfo_A (18 * Hour) 0 \<noteq> ''expires in less than a day''"
  by code_simp

section \<open>The decision to notify\<close>

lemma all_iff: "all s f = (\<forall>v \<in> set s. f v)"
  by (induction s) simp_all

lemma needsNotify_iff:
  "needsNotify i now = (err i \<noteq> None \<or> Sub (end' i) now \<le> expiryThreshold)"
  by (auto simp: needsNotify_def)

lemma needsNotify_A_iff:
  "needsNotify_A i now = (err i \<noteq> None \<or> Sub (end' i) now \<le> notifyExpiryThreshold)"
  by (auto simp: needsNotify_A_def)

text \<open>
  \<^verbatim>\<open>main\<close> of lines 229-275, when some item calls for a notification: nothing is
  printed, \<^verbatim>\<open>mail\<close> is run once with the report on its standard input, and the exit
  status is 1 exactly when that command fails.
\<close>

lemma main_notify:
  assumes "length args = 1" and "domains TrimSpace stdin = Inr ds" and "ds \<noteq> []"
    and "\<exists>i \<in> set (probeAll net ds). err i \<noteq> None \<or> Sub (end' i) now \<le> expiryThreshold"
  shows "stdout (main TrimSpace args now stdin net Run) = [] \<and>
         ran (main TrimSpace args now stdin net Run) =
           [([''mail'', ''-s'', mailSubject, args ! 0], mailBody (probeAll net ds) now)] \<and>
         (status (main TrimSpace args now stdin net Run) = 1) =
           (Run [''mail'', ''-s'', mailSubject, args ! 0] (mailBody (probeAll net ds) now) \<noteq> None) \<and>
         (status (main TrimSpace args now stdin net Run) = 0) =
           (Run [''mail'', ''-s'', mailSubject, args ! 0] (mailBody (probeAll net ds) now) = None)"
proof -
  from assms(4) have "\<not> all (probeAll net ds) (\<lambda>i. \<not> needsNotify i now)"
    by (auto simp: all_iff needsNotify_iff)
  with assms(1-3) show ?thesis
    by (auto simp: main_def Let_def start_def Fatal_def notify_def sendMail_def split: option.split)
qed

lemma main_all_ok:
  assumes "length args = 1" and "domains TrimSpace stdin = Inr ds" and "ds \<noteq> []"
    and "\<forall>i \<in> set (probeAll net ds). err i = None \<and> Sub (end' i) now > expiryThreshold"
  shows "main TrimSpace args now stdin net Run =
           \<lparr>status = 0, stdout = [], stderr = [], dialled = map (\<lambda>d. d @ '':443'') ds, ran = []\<rparr>"
proof -
  from assms(4) have "all (probeAll net ds) (\<lambda>i. \<not> needsNotify i now)"
    by (auto simp: all_iff needsNotify_iff)
  with assms(1-3) show ?thesis
    by (simp add: main_def Let_def start_def)
qed

text \<open>
  Claim C2. The decision of \<^verbatim>\<open>main\<close> to notify, the negation of
  \<^verbatim>\<open>all(items, noNotify)\<close>, holds exactly when some item carries an error or has a gap
  of at most the threshold, and \<^verbatim>\<open>main\<close> acts on it: on a list of domains that is not
  empty, it runs \<^verbatim>\<open>mail\<close> exactly when some probed item carries an error or has a gap of
  at most the threshold, once, with the report of all the items on its standard input,
  and ends with status 1 exactly when that command fails. When every probed item is
  free of error and has a gap above the threshold, the run ends with status 0 after the
  probes: nothing is written to standard output or standard error and no command is
  run. The report is built on the other branch only.
\<close>

theorem notify_decision:
  "((\<not> all items (\<lambda>i. \<not> needsNotify i now)) =
      (\<exists>i \<in> set items. err i \<noteq> None \<or> Sub (end' i) now \<le> expiryThreshold)) \<and>
   (length args = 1 \<and> domains TrimSpace stdin = Inr ds \<and> ds \<noteq> [] \<and>
    (\<forall>i \<in> set (probeAll net ds). err i = None \<and> Sub (end' i) now > expiryThreshold) \<longrightarrow>
      main TrimSpace args now stdin net Run =
        \<lparr>status = 0, stdout = [], stderr = [], dialled = map (\<lambda>d. d @ '':443'') ds, ran = []\<rparr>) \<and>
   (length args = 1 \<and> domains TrimSpace stdin = Inr ds \<and> ds \<noteq> [] \<longrightarrow>
      (ran (main TrimSpace args now stdin net Run) \<noteq> []) =
        (\<exists>i \<in> set (probeAll net ds). err i \<noteq> None \<or> Sub (end' i) now \<le> expiryThreshold) \<and>
      (ran (main TrimSpace args now stdin net Run) \<noteq> []) =
        (\<not> all (probeAll net ds) (\<lambda>i. \<not> needsNotify i now))) \<and>
   (length args = 1 \<and> domains TrimSpace stdin = Inr ds \<and> ds \<noteq> [] \<and>
    (\<exists>i \<in> set (probeAll net ds). err i \<noteq> None \<or> Sub (end' i) now \<le> expiryThreshold) \<longrightarrow>
      stdout (main TrimSpace args now stdin net Run) = [] \<and>
      ran (main TrimSpace args now stdin net Run) =
        [([''mail'', ''-s'', mailSubject, args ! 0], mailBody (probeAll net ds) now)] \<and>
      (status (main TrimSpace args now stdin net Run) = 1) =
        (Run [''mail'', ''-s'', mailSubject, args ! 0] (mailBody (probeAll net ds) now) \<noteq> None) \<and>
      (status (main TrimSpace args now stdin net Run) = 0) =
        (Run [''mail'', ''-s'', mailSubject, args ! 0] (mailBody (probeAll net ds) now) = None))"
  (is "?decision \<and> ?quiet \<and> ?acts \<and> ?mails")
proof -
  have dec: "(\<not> all xs (\<lambda>i. \<not> needsNotify i now)) =
      (\<exists>i \<in> set xs. err i \<noteq> None \<or> Sub (end' i) now \<le> expiryThreshold)" for xs
    by (simp add: all_iff needsNotify_iff)
  have ok: "main TrimSpace args now stdin net Run =
        \<lparr>status = 0, stdout = [], stderr = [], dialled = map (\<lambda>d. d @ '':443'') ds, ran = []\<rparr>"
    if "length args = 1 \<and> domains TrimSpace stdin = Inr ds \<and> ds \<noteq> [] \<and>
      (\<forall>i \<in> set (probeAll net ds). err i = None \<and> Sub (end' i) now > expiryThreshold)"
    using that main_all_ok [of args TrimSpace stdin ds net now Run] by blast
  have no: "stdout (main TrimSpace args now stdin net Run) = [] \<and>
      ran (main TrimSpace args now stdin net Run) =
        [([''mail'', ''-s'', mailSubject, args ! 0], mailBody (probeAll net ds) now)] \<and>
      (status (main TrimSpace args now stdin net Run) = 1) =
        (Run [''mail'', ''-s'', mailSubject, args ! 0] (mailBody (probeAll net ds) now) \<noteq> None) \<and>
      (status (main TrimSpace args now stdin net Run) = 0) =
        (Run [''mail'', ''-s'', mailSubject, args ! 0] (mailBody (probeAll net ds) now) = None)"
    if "length args = 1 \<and> domains TrimSpace stdin = Inr ds \<and> ds \<noteq> [] \<and>
      (\<exists>i \<in> set (probeAll net ds). err i \<noteq> None \<or> Sub (end' i) now \<le> expiryThreshold)"
    using that main_notify [of args TrimSpace stdin ds net now Run] by blast
  have iff: "(ran (main TrimSpace args now stdin net Run) \<noteq> []) =
        (\<exists>i \<in> set (probeAll net ds). err i \<noteq> None \<or> Sub (end' i) now \<le> expiryThreshold)"
    if h: "length args = 1 \<and> domains TrimSpace stdin = Inr ds \<and> ds \<noteq> []"
  proof (cases "\<exists>i \<in> set (probeAll net ds). err i \<noteq> None \<or> Sub (end' i) now \<le> expiryThreshold")
    case True
    with h no show ?thesis
      by simp
  next
    case False
    then have "\<forall>i \<in> set (probeAll net ds). err i = None \<and> Sub (end' i) now > expiryThreshold"
      by auto
    with h ok have "ran (main TrimSpace args now stdin net Run) = []"
      by simp
    with False show ?thesis
      by simp
  qed
  have c1: ?decision
    by (rule dec)
  have c2: ?quiet
    by (rule impI) (rule ok)
  have c3: ?acts
    by (rule impI) (simp add: iff dec)
  have c4: ?mails
    by (rule impI) (rule no)
  show ?thesis
    by (rule conjI [OF c1 conjI [OF c2 conjI [OF c3 c4]]])
qed

theorem notify_decision_witness:
  "(\<not> all [\<lparr>domain = ''a.example'', end' = 1440 * Hour, err = None\<rparr>,
            \<lparr>domain = ''b.example'', end' = zeroTime, err = Some (New ''timeout'')\<rparr>]
           (\<lambda>i. \<not> needsNotify i 0)) \<and>
   main id [''ops@example.org''] 0 \<lparr>lines = [''a.example''], scanErr = None\<rparr>
     (\<lambda>idx a. Conn [\<lparr>Subject = ''a.example'', Issuer = ''ca'', NotBefore = 0, NotAfter = 1440 * Hour\<rparr>])
     (\<lambda>argv body. None) =
   \<lparr>status = 0, stdout = [], stderr = [], dialled = [''a.example:443''], ran = []\<rparr> \<and>
   ran (main id [''ops@example.org''] 0 \<lparr>lines = [''a.example''], scanErr = None\<rparr>
     (\<lambda>idx a. Conn [\<lparr>Subject = ''a.example'', Issuer = ''ca'', NotBefore = 0, NotAfter = 240 * Hour\<rparr>])
     (\<lambda>argv body. None)) =
   [([''mail'', ''-s'', ''notafter: domain cert expiries'', ''ops@example.org''],
     ''a.example: expires in 10 days\<newline>'')] \<and>
   status (main id [''ops@example.org''] 0 \<lparr>lines = [''a.example''], scanErr = None\<rparr>
     (\<lambda>idx a. Conn [\<lparr>Subject = ''a.example'', Issuer = ''ca'', NotBefore = 0, NotAfter = 240 * Hour\<rparr>])
     (\<lambda>argv body. None)) = 0"
proof -
  let ?net = "\<lambda>(idx::nat) (a::string). Conn [\<lparr>Subject = ''a.example'', Issuer = ''ca'', NotBefore = 0, NotAfter = 1440 * Hour\<rparr>]"
  let ?net' = "\<lambda>(idx::nat) (a::string). Conn [\<lparr>Subject = ''a.example'', Issuer = ''ca'', NotBefore = 0, NotAfter = 240 * Hour\<rparr>]"
  let ?stdin = "\<lparr>lines = [''a.example''], scanErr = None\<rparr>"
  have d: "domains id ?stdin = Inr [''a.example'']"
    by (simp add: domains_def)
  have g: "Sub (1440 * Hour) 0 > expiryThreshold" "Sub (240 * Hour) 0 \<le> expiryThreshold"
    by code_simp+
  have p: "\<forall>i \<in> set (probeAll ?net [''a.example'']). err i = None \<and> Sub (end' i) 0 > expiryThreshold"
    using g by (simp add: probeAll_def check_def)
  have p': "\<exists>i \<in> set (probeAll ?net' [''a.example'']). err i \<noteq> None \<or> Sub (end' i) 0 \<le> expiryThreshold"
    using g by (simp add: probeAll_def check_def)
  have b: "mailBody (probeAll ?net' [''a.example'']) 0 = ''a.example: expires in 10 days\<newline>''"
    by code_simp
  have e: "\<exists>i \<in> set [\<lparr>domain = ''a.example'', end' = 1440 * Hour, err = None\<rparr>,
            \<lparr>domain = ''b.example'', end' = zeroTime, err = Some (New ''timeout'')\<rparr>].
             err i \<noteq> None \<or> Sub (end' i) 0 \<le> expiryThreshold"
    by simp
  have 1: "(\<not> all [\<lparr>domain = ''a.example'', end' = 1440 * Hour, err = None\<rparr>,
            \<lparr>domain = ''b.example'', end' = zeroTime, err = Some (New ''timeout'')\<rparr>]
           (\<lambda>i. \<not> needsNotify i 0)) \<and>
      main id [''ops@example.org''] 0 ?stdin ?net (\<lambda>argv body. None) =
      \<lparr>status = 0, stdout = [], stderr = [], dialled = [''a.example:443''], ran = []\<rparr>"
    using notify_decision [of "[\<lparr>domain = ''a.example'', end' = 1440 * Hour, err = None\<rparr>,
            \<lparr>domain = ''b.example'', end' = zeroTime, err = Some (New ''timeout'')\<rparr>]" 0
          "[''ops@example.org'']" id ?stdin "[''a.example'']" ?net "\<lambda>argv body. None"] d p e
    by simp
  have 2: "ran (main id [''ops@example.org''] 0 ?stdin ?net' (\<lambda>argv body. None)) =
      [([''mail'', ''-s'', ''notafter: domain cert expiries'', ''ops@example.org''],
        ''a.example: expires in 10 days\<newline>'')] \<and>
      status (main id [''ops@example.org''] 0 ?stdin ?net' (\<lambda>argv body. None)) = 0"
    using notify_decision [of "[]" 0 "[''ops@example.org'']" id ?stdin "[''a.example'']" ?net'
        "\<lambda>argv body. None"] d p'
    by (simp add: b mailSubject_def)
  from 1 2 show ?thesis
    by blast
qed

section \<open>The report body\<close>

lemma fold_append_lines:
  "fold (\<lambda>i buf. (buf @ f i) @ [c]) items acc = acc @ concat (map (\<lambda>i. f i @ [c]) items)"
  by (induction items arbitrary: acc) simp_all

lemma format_line:
  "format i now =
     domain i @ '': '' @ (case err i of Some e \<Rightarrow> Error e | None \<Rightarrow> expiryInfo (end' i) now)"
  by (simp add: format_def Let_def split: option.split)

lemma format_A_line:
  "format_A i now =
     domain i @ '': '' @ (case err i of Some e \<Rightarrow> Error e | None \<Rightarrow> expiryInfo_A (end' i) now)"
  by (simp add: format_A_def Let_def split: option.split)

lemma digit_not_newline: "d < 10 \<Longrightarrow> digit d \<noteq> CHR ''\<newline>''"
proof
  assume d: "d < 10" and eq: "digit d = CHR ''\<newline>''"
  have "of_char (digit d) = (48 + d) mod 256"
    by (simp add: digit_def)
  with d have "(of_char (digit d) :: nat) = 48 + d"
    by simp
  with eq show False
    by simp
qed

lemma fmtUint_no_newline: "CHR ''\<newline>'' \<notin> set (fmtUint u)"
proof (induction u rule: fmtUint.induct)
  case (1 u)
  show ?case
  proof (cases "u < 10")
    case True
    then show ?thesis
      using digit_not_newline [of u] by (subst fmtUint.simps) auto
  next
    case False
    have "u mod 10 < 10" by simp
    then have "digit (u mod 10) \<noteq> CHR ''\<newline>''"
      by (rule digit_not_newline)
    with False "1.IH" show ?thesis
      by (subst fmtUint.simps) auto
  qed
qed

lemma fmtInt_no_newline: "CHR ''\<newline>'' \<notin> set (fmtInt n)"
  by (simp add: fmtInt_def fmtUint_no_newline)

lemma expiryInfo_no_newline: "CHR ''\<newline>'' \<notin> set (expiryInfo e now)"
  by (simp add: expiryInfo_buckets fmtInt_no_newline)

lemma expiryInfo_A_no_newline: "CHR ''\<newline>'' \<notin> set (expiryInfo_A e now)"
  by (simp add: expiryInfo_A_buckets fmtInt_no_newline)

lemma count_newlines:
  "\<forall>x \<in> set xs. CHR ''\<newline>'' \<notin> set (f x) \<Longrightarrow>
   length (filter (\<lambda>c. c = CHR ''\<newline>'') (concat (map (\<lambda>x. f x @ [CHR ''\<newline>'']) xs))) = length xs"
  by (induction xs) (auto simp: filter_empty_conv)

text \<open>
  Claim C3. The report body is the concatenation, in the order of the items, of one
  piece for each item and of nothing else; the piece of an item is its domain, \<^verbatim>\<open>": "\<close>,
  its classification (the description of its error, or its expiry information) and a
  newline. So the body is made of as many newline-terminated pieces as there are items;
  when no domain and no error description holds a newline itself, the body has as many
  newlines as there are items. This holds for \<^verbatim>\<open>mailBody\<close> and for \<^verbatim>\<open>resultsBody\<close>, and
  for every list of items, those that call for a notification among them.
\<close>

theorem report_body_lines:
  "mailBody items now =
     concat (map (\<lambda>i. domain i @ '': '' @
                       (case err i of Some e \<Rightarrow> Error e | None \<Rightarrow> expiryInfo (end' i) now) @
                       [CHR ''\<newline>'']) items) \<and>
   resultsBody items now =
     concat (map (\<lambda>i. domain i @ '': '' @
                       (case err i of Some e \<Rightarrow> Error e | None \<Rightarrow> expiryInfo_A (end' i) now) @
                       [CHR ''\<newline>'']) items) \<and>
   ((\<forall>i \<in> set items. CHR ''\<newline>'' \<notin> set (domain i) \<and>
                      (\<forall>e. err i = Some e \<longrightarrow> CHR ''\<newline>'' \<notin> set (Error e))) \<longrightarrow>
      length (filter (\<lambda>c. c = CHR ''\<newline>'') (mailBody items now)) = length items \<and>
      length (filter (\<lambda>c. c = CHR ''\<newline>'') (resultsBody items now)) = length items)"
proof -
  have m: "mailBody items now = concat (map (\<lambda>i. format i now @ [CHR ''\<newline>'']) items)"
    using fold_append_lines [of "\<lambda>i. format i now" "CHR ''\<newline>''" items "[]"]
    by (simp add: mailBody_def)
  have r: "resultsBody items now = concat (map (\<lambda>i. format_A i now @ [CHR ''\<newline>'']) items)"
    using fold_append_lines [of "\<lambda>i. format_A i now" "CHR ''\<newline>''" items "[]"]
    by (simp add: resultsBody_def)
  have c: "length (filter (\<lambda>c. c = CHR ''\<newline>'') (mailBody items now)) = length items \<and>
      length (filter (\<lambda>c. c = CHR ''\<newline>'') (resultsBody items now)) = length items"
    if h: "\<forall>i \<in> set items. CHR ''\<newline>'' \<notin> set (domain i) \<and>
                      (\<forall>e. err i = Some e \<longrightarrow> CHR ''\<newline>'' \<notin> set (Error e))"
  proof -
    have "\<forall>i \<in> set items. CHR ''\<newline>'' \<notin> set (format i now)"
      using h by (auto simp: format_line expiryInfo_no_newline split: option.splits)
    moreover have "\<forall>i \<in> set items. CHR ''\<newline>'' \<notin> set (format_A i now)"
      using h by (auto simp: format_A_line expiryInfo_A_no_newline split: option.splits)
    ultimately show ?thesis
      unfolding m r by (simp add: count_newlines)
  qed
  show ?thesis
    using c by (simp add: m r format_line format_A_line)
qed

theorem report_body_lines_witness:
  "mailBody [\<lparr>domain = ''a.example'', end' = 1440 * Hour, err = None\<rparr>,
             \<lparr>domain = ''b.example'', end' = zeroTime, err = Some (New ''timeout'')\<rparr>] 0 =
     ''a.example: ok\<newline>b.example: timeout\<newline>'' \<and>
   resultsBody [\<lparr>domain = ''a.example'', end' = 1440 * Hour, err = None\<rparr>,
             \<lparr>domain = ''b.example'', end' = zeroTime, err = Some (New ''timeout'')\<rparr>] 0 =
     ''a.example: good\<newline>b.example: timeout\<newline>'' \<and>
   length (filter (\<lambda>c. c = CHR ''\<newline>'')
     (mailBody [\<lparr>domain = ''a.example'', end' = 1440 * Hour, err = None\<rparr>,
             \<lparr>domain = ''b.example'', end' = zeroTime, err = Some (New ''timeout'')\<rparr>] 0)) = 2"
proof -
  have ok: "expiryInfo (1440 * Hour) 0 = ''ok''"
    by code_simp
  have good: "expiryInfo_A (1440 * Hour) 0 = ''good''"
    by code_simp
  show ?thesis
    using report_body_lines [of "[\<lparr>domain = ''a.example'', end' = 1440 * Hour, err = None\<rparr>,
             \<lparr>domain = ''b.example'', end' = zeroTime, err = Some (New ''timeout'')\<rparr>]" 0]
    by (simp add: ok good New_def)
qed

section \<open>The boundaries of the buckets\<close>

lemma fmtInt_30: "fmtInt 30 = ''30''"
  by code_simp

lemma fmtInt_28: "fmtInt 28 = ''28''"
  by code_simp

lemma fmtInt_10: "fmtInt 10 = ''10''"
  by code_simp

text \<open>
  Claim C4, as the code has it. An item free of error whose gap is exactly the
  threshold is not classified \<^verbatim>\<open>ok\<close>: the comparison with the threshold is strict in
  \<^verbatim>\<open>expiryInfo\<close> and in \<^verbatim>\<open>needsNotify\<close> alike, so the item is in the last of the
  expiring buckets, \<^verbatim>\<open>expires in 30 days\<close> (\<^verbatim>\<open>expires in 28 days\<close> in the listing at
  lines 1-197), and it calls for a notification by itself. One nanosecond more and the
  item is \<^verbatim>\<open>ok\<close> and calls for none: the classification is \<^verbatim>\<open>ok\<close> (\<^verbatim>\<open>good\<close>)
  exactly when the gap is above the threshold, and an item calls for no notification
  exactly when it has no error and its gap is above the threshold.
\<close>

theorem gap_at_threshold:
  "(err i = None \<and> Sub (end' i) now = expiryThreshold \<longrightarrow>
      expiryInfo (end' i) now = ''expires in 30 days'' \<and>
      format i now = domain i @ '': expires in 30 days'' \<and>
      needsNotify i now \<and> \<not> all [i] (\<lambda>j. \<not> needsNotify j now)) \<and>
   (err i = None \<and> Sub (end' i) now = notifyExpiryThreshold \<longrightarrow>
      expiryInfo_A (end' i) now = ''expires in 28 days'' \<and>
      format_A i now = domain i @ '': expires in 28 days'' \<and>
      needsNotify_A i now \<and> \<not> all [i] (\<lambda>j. \<not> needsNotify_A j now)) \<and>
   (err i = None \<and> Sub (end' i) now = expiryThreshold + 1 \<longrightarrow>
      expiryInfo (end' i) now = ''ok'' \<and> \<not> needsNotify i now) \<and>
   (err i = None \<and> Sub (end' i) now = notifyExpiryThreshold + 1 \<longrightarrow>
      expiryInfo_A (end' i) now = ''good'' \<and> \<not> needsNotify_A i now) \<and>
   (expiryInfo (end' i) now = ''ok'') = (Sub (end' i) now > expiryThreshold) \<and>
   (\<not> needsNotify i now) = (err i = None \<and> Sub (end' i) now > expiryThreshold) \<and>
   (expiryInfo_A (end' i) now = ''good'') = (Sub (end' i) now > notifyExpiryThreshold) \<and>
   (\<not> needsNotify_A i now) = (err i = None \<and> Sub (end' i) now > notifyExpiryThreshold)"
  (is "?at \<and> ?at_A \<and> ?above \<and> ?above_A \<and> ?ok \<and> ?quiet \<and> ?ok_A \<and> ?quiet_A")
proof -
  have d30: "expiryThreshold div (24 * Hour) = 30"
    by (simp add: expiryThreshold_val day_val)
  have d28: "notifyExpiryThreshold div (24 * Hour) = 28"
    by (simp add: notifyExpiryThreshold_val day_val)
  have b: "\<not> expiryThreshold < 24 * Hour" "\<not> notifyExpiryThreshold < 24 * Hour"
      "\<not> expiryThreshold < 0" "\<not> notifyExpiryThreshold < 0"
    by (simp_all add: expiryThreshold_val notifyExpiryThreshold_val day_val)
  have points: "?at \<and> ?at_A \<and> ?above \<and> ?above_A"
    by (simp add: format_line format_A_line expiryInfo_buckets expiryInfo_A_buckets
        needsNotify_iff needsNotify_A_iff d30 d28 b fmtInt_30 fmtInt_28)
  have strict: "?ok \<and> ?quiet \<and> ?ok_A \<and> ?quiet_A"
    by (auto simp: needsNotify_iff needsNotify_A_iff expiryInfo_buckets expiryInfo_A_buckets)
  show ?thesis
    by (rule conjI [OF points strict, unfolded conj_assoc])
qed

theorem gap_at_threshold_witness:
  "format \<lparr>domain = ''a.example'', end' = 720 * Hour, err = None\<rparr> 0 =
     ''a.example: expires in 30 days'' \<and>
   needsNotify \<lparr>domain = ''a.example'', end' = 720 * Hour, err = None\<rparr> 0 \<and>
   format_A \<lparr>domain = ''a.example'', end' = 672 * Hour, err = None\<rparr> 0 =
     ''a.example: expires in 28 days'' \<and>
   needsNotify_A \<lparr>domain = ''a.example'', end' = 672 * Hour, err = None\<rparr> 0 \<and>
   expiryInfo (720 * Hour + 1) 0 = ''ok'' \<and>
   \<not> needsNotify \<lparr>domain = ''a.example'', end' = 720 * Hour + 1, err = None\<rparr> 0 \<and>
   expiryInfo_A (672 * Hour + 1) 0 = ''good'' \<and>
   \<not> needsNotify_A \<lparr>domain = ''a.example'', end' = 672 * Hour + 1, err = None\<rparr> 0"
proof -
  have g: "Sub (720 * Hour) 0 = expiryThreshold" "Sub (672 * Hour) 0 = notifyExpiryThreshold"
      "Sub (720 * Hour + 1) 0 = expiryThreshold + 1"
      "Sub (672 * Hour + 1) 0 = notifyExpiryThreshold + 1"
    by code_simp+
  show ?thesis
    using gap_at_threshold [of "\<lparr>domain = ''a.example'', end' = 720 * Hour, err = None\<rparr>" 0]
      gap_at_threshold [of "\<lparr>domain = ''a.example'', end' = 672 * Hour, err = None\<rparr>" 0]
      gap_at_threshold [of "\<lparr>domain = ''a.example'', end' = 720 * Hour + 1, err = None\<rparr>" 0]
      gap_at_threshold [of "\<lparr>domain = ''a.example'', end' = 672 * Hour + 1, err = None\<rparr>" 0]
      g
    by simp
qed

text \<open>
  The item whose gap is exactly the threshold of 30 days: its classification is not
  \<^verbatim>\<open>ok\<close>, and it calls for a notification.
\<close>

theorem gap_at_threshold_counterexample:
  "err \<lparr>domain = ''a.example'', end' = 720 * Hour, err = None\<rparr> = None \<and>
   Sub (end' \<lparr>domain = ''a.example'', end' = 720 * Hour, err = None\<rparr>) 0 = expiryThreshold \<and>
   expiryInfo (end' \<lparr>domain = ''a.example'', end' = 720 * Hour, err = None\<rparr>) 0 \<noteq> ''ok'' \<and>
   format \<lparr>domain = ''a.example'', end' = 720 * Hour, err = None\<rparr> 0 =
     ''a.example: expires in 30 days'' \<and>
   needsNotify \<lparr>domain = ''a.example'', end' = 720 * Hour, err = None\<rparr> 0"
  by code_simp

text \<open>
  Claim C5. For an item free of error: a gap of exactly zero is classified
  \<^verbatim>\<open>expires in less than a day\<close>, not \<^verbatim>\<open>already expired\<close>; every negative gap, of one
  nanosecond already, is classified \<^verbatim>\<open>already expired\<close>.
\<close>

theorem gap_zero_and_negative:
  "(err i = None \<and> Sub (end' i) now = 0 \<longrightarrow>
      expiryInfo (end' i) now = ''expires in less than a day'' \<and>
      expiryInfo (end' i) now \<noteq> ''already expired'' \<and>
      format i now = domain i @ '': expires in less than a day'') \<and>
   (err i = None \<and> Sub (end' i) now < 0 \<longrightarrow>
      expiryInfo (end' i) now = ''already expired'' \<and>
      format i now = domain i @ '': already expired'')"
proof -
  have b: "\<not> expiryThreshold < 0" "(0::int) < 24 * Hour"
    by (simp_all add: expiryThreshold_val day_val)
  have n: "\<not> expiryThreshold < g" if "g < 0" for g
    using that by (simp add: expiryThreshold_val)
  show ?thesis
    using n by (auto simp: format_line expiryInfo_buckets b)
qed

theorem gap_zero_and_negative_witness:
  "format \<lparr>domain = ''a.example'', end' = 1700000000 * Second, err = None\<rparr> (1700000000 * Second) =
     ''a.example: expires in less than a day'' \<and>
   format \<lparr>domain = ''a.example'', end' = 1700000000 * Second - 1, err = None\<rparr> (1700000000 * Second) =
     ''a.example: already expired'' \<and>
   format \<lparr>domain = ''a.example'', end' = 1700000000 * Second - Hour, err = None\<rparr> (1700000000 * Second) =
     ''a.example: already expired''"
proof -
  have g: "Sub (1700000000 * Second) (1700000000 * Second) = 0"
      "Sub (1700000000 * Second - 1) (1700000000 * Second) < 0"
      "Sub (1700000000 * Second - Hour) (1700000000 * Second) < 0"
    by code_simp+
  show ?thesis
    using gap_zero_and_negative [of "\<lparr>domain = ''a.example'', end' = 1700000000 * Second, err = None\<rparr>" "1700000000 * Second"]
      gap_zero_and_negative [of "\<lparr>domain = ''a.example'', end' = 1700000000 * Second - 1, err = None\<rparr>" "1700000000 * Second"]
      gap_zero_and_negative [of "\<lparr>domain = ''a.example'', end' = 1700000000 * Second - Hour, err = None\<rparr>" "1700000000 * Second"]
      g
    by simp
qed

text \<open>
  The digits that \<open>fmtUint\<close> writes are the decimal numeral of the number: read back
  with the most significant digit first, they give the number.
\<close>

lemma of_char_digit: "d < 10 \<Longrightarrow> of_char (digit d) = 48 + d"
  by (simp add: digit_def)

lemma fmtUint_decimal:
  "foldl (\<lambda>acc c. 10 * acc + (of_char c - 48)) 0 (fmtUint u) = u"
proof (induction u rule: fmtUint.induct)
  case (1 u)
  show ?case
  proof (cases "u < 10")
    case True
    then show ?thesis
      by (subst fmtUint.simps) (simp add: of_char_digit)
  next
    case False
    have "of_char (digit (u mod 10)) = 48 + u mod 10"
      by (rule of_char_digit) simp
    with False "1.IH" show ?thesis
      by (subst fmtUint.simps) simp
  qed
qed

text \<open>
  Claim C6. For an item free of error with \<open>24h \<le> g \<le> T\<close>, the classification is
  \<^verbatim>\<open>expires in N day\<close> or \<^verbatim>\<open>expires in N days\<close>, where \<open>N\<close> is the quotient of the
  integer division of the gap by 24 hours, the floor of \<open>g / 24h\<close>
  (\<open>N * 24h \<le> g < (N + 1) * 24h\<close>), written in decimal; the noun is \<^verbatim>\<open>day\<close> exactly
  when \<open>N = 1\<close>. A gap of exactly ten days gives \<^verbatim>\<open>expires in 10 days\<close>.
\<close>

theorem days_bucket:
  "(err i = None \<and> 24 * Hour \<le> Sub (end' i) now \<and> Sub (end' i) now \<le> expiryThreshold \<longrightarrow>
      format i now =
        domain i @ '': expires in '' @ fmtInt (Sub (end' i) now div (24 * Hour)) @ '' '' @
        (if Sub (end' i) now div (24 * Hour) = 1 then ''day'' else ''days'') \<and>
      quo (Sub (end' i) now) (24 * Hour) = Sub (end' i) now div (24 * Hour) \<and>
      Sub (end' i) now div (24 * Hour) * (24 * Hour) \<le> Sub (end' i) now \<and>
      Sub (end' i) now < (Sub (end' i) now div (24 * Hour) + 1) * (24 * Hour) \<and>
      1 \<le> Sub (end' i) now div (24 * Hour) \<and> Sub (end' i) now div (24 * Hour) \<le> 30) \<and>
   (err i = None \<and> Sub (end' i) now = 10 * (24 * Hour) \<longrightarrow>
      format i now = domain i @ '': expires in 10 days'')"
proof -
  let ?g = "Sub (end' i) now"
  have pos: "(0::int) < 86400000000000"
    by simp
  have "?g div 86400000000000 * 86400000000000 + ?g mod 86400000000000 = ?g"
    by (rule div_mult_mod_eq)
  moreover have "0 \<le> ?g mod 86400000000000" "?g mod 86400000000000 < 86400000000000"
    using pos by (rule pos_mod_sign, rule pos_mod_bound)
  ultimately have fl: "?g div 86400000000000 * 86400000000000 \<le> ?g"
      "?g < (?g div 86400000000000 + 1) * 86400000000000"
    by (simp_all add: algebra_simps)
  have lo: "1 \<le> ?g div 86400000000000" if "86400000000000 \<le> ?g"
    using that pos_imp_zdiv_pos_iff [OF pos, of ?g] by simp
  have hi: "?g div 86400000000000 \<le> 30" if "?g \<le> 2592000000000000"
    using zdiv_mono1 [OF that pos] by simp
  have q: "quo ?g 86400000000000 = ?g div 86400000000000" if "86400000000000 \<le> ?g"
    using that by (simp add: quo_nonneg)
  have ten: "format i now = domain i @ '': expires in 10 days''"
    if "err i = None" "?g = 864000000000000"
    using that by (simp add: format_line expiryInfo_buckets expiryThreshold_val day_val fmtInt_10)
  show ?thesis
    using fl lo hi q ten
    by (auto simp: format_line expiryInfo_buckets expiryThreshold_val day_val)
qed

theorem days_bucket_witness:
  "format \<lparr>domain = ''a.example'', end' = 240 * Hour, err = None\<rparr> 0 =
     ''a.example: expires in 10 days'' \<and>
   format \<lparr>domain = ''a.example'', end' = 47 * Hour, err = None\<rparr> 0 =
     ''a.example: expires in 1 day'' \<and>
   format \<lparr>domain = ''a.example'', end' = 48 * Hour, err = None\<rparr> 0 =
     ''a.example: expires in 2 days''"
proof -
  have g: "Sub (240 * Hour) 0 = 10 * (24 * Hour)"
      "24 * Hour \<le> Sub (47 * Hour) 0 \<and> Sub (47 * Hour) 0 \<le> expiryThreshold"
      "24 * Hour \<le> Sub (48 * Hour) 0 \<and> Sub (48 * Hour) 0 \<le> expiryThreshold"
    by code_simp+
  have n: "Sub (47 * Hour) 0 div (24 * Hour) = 1" "Sub (48 * Hour) 0 div (24 * Hour) = 2"
    by code_simp+
  have d: "fmtInt 1 = ''1''" "fmtInt 2 = ''2''"
    by code_simp+
  show ?thesis
    using days_bucket [of "\<lparr>domain = ''a.example'', end' = 240 * Hour, err = None\<rparr>" 0]
      days_bucket [of "\<lparr>domain = ''a.example'', end' = 47 * Hour, err = None\<rparr>" 0]
      days_bucket [of "\<lparr>domain = ''a.example'', end' = 48 * Hour, err = None\<rparr>" 0]
      g
    by (simp add: n d)
qed

text \<open>
  Claim C10. The decision for one item agrees with its classification: \<^verbatim>\<open>needsNotify\<close>
  is false exactly when the item has no error and \<^verbatim>\<open>expiryInfo\<close> gives \<^verbatim>\<open>ok\<close>
  (\<^verbatim>\<open>good\<close> in the listing at lines 1-197), which it gives exactly when the gap is above
  the threshold. So an item with an error, or with any other expiry information, calls
  for a notification.
\<close>

theorem needsNotify_agrees:
  "(\<not> needsNotify i now) = (err i = None \<and> expiryInfo (end' i) now = ''ok'') \<and>
   (expiryInfo (end' i) now = ''ok'') = (Sub (end' i) now > expiryThreshold) \<and>
   (\<not> needsNotify_A i now) = (err i = None \<and> expiryInfo_A (end' i) now = ''good'') \<and>
   (expiryInfo_A (end' i) now = ''good'') = (Sub (end' i) now > notifyExpiryThreshold)"
  by (auto simp: needsNotify_iff needsNotify_A_iff expiryInfo_buckets expiryInfo_A_buckets)

theorem needsNotify_agrees_witness:
  "\<not> needsNotify \<lparr>domain = ''a.example'', end' = 1440 * Hour, err = None\<rparr> 0 \<and>
   needsNotify \<lparr>domain = ''a.example'', end' = 240 * Hour, err = None\<rparr> 0 \<and>
   needsNotify \<lparr>domain = ''a.example'', end' = 1440 * Hour, err = Some (New ''ok'')\<rparr> 0 \<and>
   \<not> needsNotify_A \<lparr>domain = ''a.example'', end' = 1440 * Hour, err = None\<rparr> 0"
proof -
  have e: "expiryInfo (1440 * Hour) 0 = ''ok''" "expiryInfo (240 * Hour) 0 \<noteq> ''ok''"
      "expiryInfo_A (1440 * Hour) 0 = ''good''"
    by code_simp+
  show ?thesis
    using needsNotify_agrees [of "\<lparr>domain = ''a.example'', end' = 1440 * Hour, err = None\<rparr>" 0]
      needsNotify_agrees [of "\<lparr>domain = ''a.example'', end' = 240 * Hour, err = None\<rparr>" 0]
      needsNotify_agrees [of "\<lparr>domain = ''a.example'', end' = 1440 * Hour, err = Some (New ''ok'')\<rparr>" 0]
      e
    by simp
qed

section \<open>The probe and the input\<close>

text \<open>
  Claim C7. When the dial succeeds and the peer presented no certificate, \<^verbatim>\<open>check\<close>
  returns the zero time and the error \<^verbatim>\<open>no peer certificates\<close>, an error of its own
  making and not one of the dialler. When the peer presented certificates, it returns
  the \<^verbatim>\<open>NotAfter\<close> of the first one and no error, whatever the other fields of that
  certificate and whatever the certificates after it. When the dial fails, it returns
  the zero time and the dialler's error. So a result has either no error and the time of
  the leaf, or an error and the zero time. \<^verbatim>\<open>getCertEnd\<close> does the same.
\<close>

theorem check_leaf:
  "(DialContext (d @ '':443'') = Conn [] \<longrightarrow>
      check DialContext d = (zeroTime, Some (New ''no peer certificates'')) \<and>
      Error (New ''no peer certificates'') = ''no peer certificates'') \<and>
   (\<forall>leaf rest. DialContext (d @ '':443'') = Conn (leaf # rest) \<longrightarrow>
      check DialContext d = (NotAfter leaf, None)) \<and>
   (\<forall>e. DialContext (d @ '':443'') = DialError e \<longrightarrow>
      check DialContext d = (zeroTime, Some e)) \<and>
   ((snd (check DialContext d) = None \<and>
     (\<exists>leaf rest. DialContext (d @ '':443'') = Conn (leaf # rest) \<and>
                  fst (check DialContext d) = NotAfter leaf)) \<or>
    (snd (check DialContext d) \<noteq> None \<and> fst (check DialContext d) = zeroTime)) \<and>
   getCertEnd DialContext d = check DialContext d"
proof (cases "DialContext (d @ '':443'')")
  case (DialError e)
  then show ?thesis
    by (simp add: check_def getCertEnd_def)
next
  case (Conn cs)
  then show ?thesis
    by (cases cs) (simp_all add: check_def getCertEnd_def New_def)
qed

theorem check_leaf_witness:
  "check (\<lambda>a. if a = ''a.example:443'' then Conn [] else DialError (New ''no such host''))
     ''a.example'' = (zeroTime, Some (New ''no peer certificates'')) \<and>
   check (\<lambda>a. if a = ''a.example:443''
               then Conn [\<lparr>Subject = ''a.example'', Issuer = ''ca'', NotBefore = 0, NotAfter = 240 * Hour\<rparr>,
                          \<lparr>Subject = ''ca'', Issuer = ''root'', NotBefore = 0, NotAfter = 9000 * Hour\<rparr>]
               else DialError (New ''no such host''))
     ''a.example'' = (240 * Hour, None) \<and>
   check (\<lambda>a. if a = ''a.example:443'' then Conn [] else DialError (New ''no such host''))
     ''b.example'' = (zeroTime, Some (New ''no such host''))"
proof -
  let ?n1 = "\<lambda>a. if a = ''a.example:443'' then Conn [] else DialError (New ''no such host'')"
  let ?n2 = "\<lambda>a. if a = ''a.example:443''
               then Conn [\<lparr>Subject = ''a.example'', Issuer = ''ca'', NotBefore = 0, NotAfter = 240 * Hour\<rparr>,
                          \<lparr>Subject = ''ca'', Issuer = ''root'', NotBefore = 0, NotAfter = 9000 * Hour\<rparr>]
               else DialError (New ''no such host'')"
  have a: "?n1 (''a.example'' @ '':443'') = Conn []"
    by simp
  have b: "?n2 (''a.example'' @ '':443'') =
      Conn (\<lparr>Subject = ''a.example'', Issuer = ''ca'', NotBefore = 0, NotAfter = 240 * Hour\<rparr> #
            [\<lparr>Subject = ''ca'', Issuer = ''root'', NotBefore = 0, NotAfter = 9000 * Hour\<rparr>])"
    by simp
  have c: "?n1 (''b.example'' @ '':443'') = DialError (New ''no such host'')"
    by simp
  from check_leaf [of ?n1 "''a.example''"] a
  have 1: "check ?n1 ''a.example'' = (zeroTime, Some (New ''no peer certificates''))"
    by blast
  from check_leaf [of ?n2 "''a.example''"] b
  have 2: "check ?n2 ''a.example'' = (240 * Hour, None)"
    by (metis Certificate.select_convs(4))
  from check_leaf [of ?n1 "''b.example''"] c
  have 3: "check ?n1 ''b.example'' = (zeroTime, Some (New ''no such host''))"
    by blast
  from 1 2 3 show ?thesis
    by blast
qed

text \<open>
  Claim C8. When the scanner yields no line, the run ends before any probe: the exit
  status is not zero, a diagnostic is written to standard error, nothing is written to
  standard output, no address is dialled and no command is run. With one argument and
  no read error, the end is that of \<^verbatim>\<open>log.Fatal("no domains")\<close>: status 1 and the line
  \<^verbatim>\<open>notafter: no domains\<close>. The same holds for \<^verbatim>\<open>main\<close> of lines 37-90.
\<close>

theorem no_domains_fatal:
  "lines stdin = [] \<longrightarrow>
     status (main TrimSpace args now stdin net Run) \<noteq> 0 \<and>
     stderr (main TrimSpace args now stdin net Run) \<noteq> [] \<and>
     stdout (main TrimSpace args now stdin net Run) = [] \<and>
     dialled (main TrimSpace args now stdin net Run) = [] \<and>
     ran (main TrimSpace args now stdin net Run) = [] \<and>
     (length args = 1 \<and> scanErr stdin = None \<longrightarrow>
        main TrimSpace args now stdin net Run =
          \<lparr>status = 1, stdout = [], stderr = ''notafter: no domains\<newline>'', dialled = [], ran = []\<rparr>) \<and>
     status (main_A TrimSpace args now stdin net Run) \<noteq> 0 \<and>
     stderr (main_A TrimSpace args now stdin net Run) \<noteq> [] \<and>
     stdout (main_A TrimSpace args now stdin net Run) = [] \<and>
     dialled (main_A TrimSpace args now stdin net Run) = [] \<and>
     ran (main_A TrimSpace args now stdin net Run) = [] \<and>
     (length args = 1 \<and> scanErr stdin = None \<longrightarrow>
        main_A TrimSpace args now stdin net Run =
          \<lparr>status = 1, stdout = [], stderr = ''notafter: no domains\<newline>'', dialled = [], ran = []\<rparr>)"
proof
  assume e: "lines stdin = []"
  have u: "usage \<noteq> []"
    by (simp add: usage_def)
  have l: "logOutput s \<noteq> []" for s
    by (simp add: logOutput_def)
  have n: "logOutput ''no domains'' = ''notafter: no domains\<newline>''"
    by (simp add: logOutput_def)
  have B: "main TrimSpace args now stdin net Run =
      (if length args \<noteq> 1 then start\<lparr>stderr := usage, status := 2\<rparr>
       else case scanErr stdin of Some e \<Rightarrow> Fatal (Error e) start
            | None \<Rightarrow> Fatal ''no domains'' start)"
    using e by (simp add: main_def domains_def Let_def split: option.split)
  have A: "main_A TrimSpace args now stdin net Run =
      (if length args \<noteq> 1 then start\<lparr>stderr := usage, status := 2\<rparr>
       else case scanErr stdin of Some e \<Rightarrow> Fatal (Error e) start
            | None \<Rightarrow> Fatal ''no domains'' start)"
    using e by (simp add: main_A_def domains_A_def Let_def split: option.split)
  show "status (main TrimSpace args now stdin net Run) \<noteq> 0 \<and>
     stderr (main TrimSpace args now stdin net Run) \<noteq> [] \<and>
     stdout (main TrimSpace args now stdin net Run) = [] \<and>
     dialled (main TrimSpace args now stdin net Run) = [] \<and>
     ran (main TrimSpace args now stdin net Run) = [] \<and>
     (length args = 1 \<and> scanErr stdin = None \<longrightarrow>
        main TrimSpace args now stdin net Run =
          \<lparr>status = 1, stdout = [], stderr = ''notafter: no domains\<newline>'', dialled = [], ran = []\<rparr>) \<and>
     status (main_A TrimSpace args now stdin net Run) \<noteq> 0 \<and>
     stderr (main_A TrimSpace args now stdin net Run) \<noteq> [] \<and>
     stdout (main_A TrimSpace args now stdin net Run) = [] \<and>
     dialled (main_A TrimSpace args now stdin net Run) = [] \<and>
     ran (main_A TrimSpace args now stdin net Run) = [] \<and>
     (length args = 1 \<and> scanErr stdin = None \<longrightarrow>
        main_A TrimSpace args now stdin net Run =
          \<lparr>status = 1, stdout = [], stderr = ''notafter: no domains\<newline>'', dialled = [], ran = []\<rparr>)"
    unfolding A B using u l n
    by (simp add: Fatal_def start_def split: option.split)
qed

theorem no_domains_fatal_witness:
  "main id [''ops@example.org''] 0 \<lparr>lines = [], scanErr = None\<rparr>
     (\<lambda>idx a. DialError (New ''no such host'')) (\<lambda>argv body. None) =
   \<lparr>status = 1, stdout = [], stderr = ''notafter: no domains\<newline>'', dialled = [], ran = []\<rparr> \<and>
   status (main id [''ops@example.org''] 0 \<lparr>lines = [], scanErr = Some (New ''read error'')\<rparr>
     (\<lambda>idx a. DialError (New ''no such host'')) (\<lambda>argv body. None)) \<noteq> 0"
  using no_domains_fatal [of "\<lparr>lines = [], scanErr = None\<rparr>" id "[''ops@example.org'']" 0
      "\<lambda>idx a. DialError (New ''no such host'')" "\<lambda>argv body. None"]
    no_domains_fatal [of "\<lparr>lines = [], scanErr = Some (New ''read error'')\<rparr>" id "[''ops@example.org'']" 0
      "\<lambda>idx a. DialError (New ''no such host'')" "\<lambda>argv body. None"]
  by simp

section \<open>The report as a function of the probe results\<close>

lemma expiryInfo_gap: "Sub e now = Sub e' now' \<Longrightarrow> expiryInfo e now = expiryInfo e' now'"
  by (simp add: expiryInfo_def)

lemma expiryInfo_A_gap: "Sub e now = Sub e' now' \<Longrightarrow> expiryInfo_A e now = expiryInfo_A e' now'"
  by (simp add: expiryInfo_A_def)

lemma format_gap:
  "domain i = domain j \<Longrightarrow> err i = err j \<Longrightarrow> Sub (end' i) now = Sub (end' j) now' \<Longrightarrow>
   format i now = format j now' \<and> format_A i now = format_A j now'"
  using expiryInfo_gap [of "end' i" now "end' j" now']
    expiryInfo_A_gap [of "end' i" now "end' j" now']
  by (simp add: format_line format_A_line split: option.split)

lemma bodies_gap:
  "length items = length items' \<Longrightarrow>
   map domain items = map domain items' \<Longrightarrow> map err items = map err items' \<Longrightarrow>
   map (\<lambda>i. Sub (end' i) now) items = map (\<lambda>i. Sub (end' i) now') items' \<Longrightarrow>
   map (\<lambda>i. format i now) items = map (\<lambda>i. format i now') items' \<and>
   map (\<lambda>i. format_A i now) items = map (\<lambda>i. format_A i now') items'"
proof (induction items items' rule: list_induct2)
  case Nil
  then show ?case by simp
next
  case (Cons i items j items')
  then show ?case
    using format_gap [of i j now now'] by simp
qed

lemma mailBody_format: "mailBody items now = concat (map (\<lambda>l. l @ [CHR ''\<newline>'']) (map (\<lambda>i. format i now) items))"
  using fold_append_lines [of "\<lambda>i. format i now" "CHR ''\<newline>''" items "[]"]
  by (simp add: mailBody_def comp_def)

lemma resultsBody_format: "resultsBody items now = concat (map (\<lambda>l. l @ [CHR ''\<newline>'']) (map (\<lambda>i. format_A i now) items))"
  using fold_append_lines [of "\<lambda>i. format_A i now" "CHR ''\<newline>''" items "[]"]
  by (simp add: resultsBody_def comp_def)

text \<open>
  Claim C9. Rendering keeps no state: each call starts from an empty buffer and reads
  the items and \<open>now\<close> only. Two renderings whose items agree in their domains, their
  errors and their gaps give the same bytes, in particular two renderings of the same
  items at the same \<open>now\<close>. And two runs of \<^verbatim>\<open>main\<close> that read the same domains at the
  same \<open>now\<close> and get the same probe results hand the same bodies to \<^verbatim>\<open>mail\<close>, whatever
  the recipient and whatever becomes of the delivery.
\<close>

theorem report_deterministic:
  "(map domain items = map domain items' \<and> map err items = map err items' \<and>
    map (\<lambda>i. Sub (end' i) now) items = map (\<lambda>i. Sub (end' i) now') items' \<longrightarrow>
      mailBody items now = mailBody items' now' \<and>
      resultsBody items now = resultsBody items' now') \<and>
   (length args = 1 \<and> length args' = 1 \<and>
    domains TrimSpace stdin = Inr ds \<and> domains TrimSpace' stdin' = Inr ds \<and>
    probeAll net ds = probeAll net' ds \<longrightarrow>
      map snd (ran (main TrimSpace args now stdin net Run)) =
      map snd (ran (main TrimSpace' args' now stdin' net' Run')))"
proof (rule conjI; rule impI)
  assume h: "map domain items = map domain items' \<and> map err items = map err items' \<and>
    map (\<lambda>i. Sub (end' i) now) items = map (\<lambda>i. Sub (end' i) now') items'"
  then have "length items = length items'"
    using map_eq_imp_length_eq by blast
  with h have "map (\<lambda>i. format i now) items = map (\<lambda>i. format i now') items' \<and>
      map (\<lambda>i. format_A i now) items = map (\<lambda>i. format_A i now') items'"
    by (simp add: bodies_gap)
  then show "mailBody items now = mailBody items' now' \<and>
      resultsBody items now = resultsBody items' now'"
    by (simp only: mailBody_format resultsBody_format)
next
  assume h: "length args = 1 \<and> length args' = 1 \<and>
    domains TrimSpace stdin = Inr ds \<and> domains TrimSpace' stdin' = Inr ds \<and>
    probeAll net ds = probeAll net' ds"
  have r: "map snd (ran (main T a now s n R)) =
      (if ds = [] \<or> all (probeAll n ds) (\<lambda>i. \<not> needsNotify i now) then []
       else [mailBody (probeAll n ds) now])"
    if "length a = 1" "domains T s = Inr ds" for T a s n R
    using that
    by (simp add: main_def Let_def Fatal_def start_def split: option.split)
  from h show "map snd (ran (main TrimSpace args now stdin net Run)) =
      map snd (ran (main TrimSpace' args' now stdin' net' Run'))"
    by (simp add: r)
qed

theorem report_deterministic_witness:
  "mailBody [\<lparr>domain = ''a.example'', end' = 240 * Hour, err = None\<rparr>] 0 =
   mailBody [\<lparr>domain = ''a.example'', end' = 241 * Hour, err = None\<rparr>] Hour \<and>
   map snd (ran (main id [''ops@example.org''] 0 \<lparr>lines = [''a.example''], scanErr = None\<rparr>
     (\<lambda>idx a. Conn []) (\<lambda>argv body. None))) =
   map snd (ran (main id [''root''] 0 \<lparr>lines = [''a.example''], scanErr = None\<rparr>
     (\<lambda>idx a. Conn []) (\<lambda>argv body. Some (New ''exit status 1''))))"
proof -
  have g: "Sub (240 * Hour) 0 = Sub (241 * Hour) Hour"
    by code_simp
  have d: "domains id \<lparr>lines = [''a.example''], scanErr = None\<rparr> = Inr [''a.example'']"
    by (simp add: domains_def)
  show ?thesis
    using report_deterministic [of "[\<lparr>domain = ''a.example'', end' = 240 * Hour, err = None\<rparr>]"
        "[\<lparr>domain = ''a.example'', end' = 241 * Hour, err = None\<rparr>]" 0 Hour
        "[''ops@example.org'']" "[''root'']" id "\<lparr>lines = [''a.example''], scanErr = None\<rparr>"
        "[''a.example'']" id "\<lparr>lines = [''a.example''], scanErr = None\<rparr>"
        "\<lambda>idx a. Conn []" "\<lambda>idx a. Conn []" "\<lambda>argv body. None"
        "\<lambda>argv body. Some (New ''exit status 1'')"] g d
    by simp
qed

section \<open>The listing at lines 1-197\<close>

text \<open>
  \<^verbatim>\<open>main\<close> of lines 37-90 ends with status 0 and no output when no item calls for a
  notification; when one does, it prints the report to standard output and hands the
  same bytes to \<^verbatim>\<open>mail\<close>.
\<close>

lemma main_A_run:
  assumes "length args = 1" and "domains_A TrimSpace stdin = (ds, None)" and "ds \<noteq> []"
  shows "(\<forall>i \<in> set (probeAll_A net ds). err i = None \<and> Sub (end' i) now > notifyExpiryThreshold) \<Longrightarrow>
           main_A TrimSpace args now stdin net Run =
             \<lparr>status = 0, stdout = [], stderr = [], dialled = map (\<lambda>d. d @ '':443'') ds, ran = []\<rparr>"
    and "(\<exists>i \<in> set (probeAll_A net ds). err i \<noteq> None \<or> Sub (end' i) now \<le> notifyExpiryThreshold) \<Longrightarrow>
           stdout (main_A TrimSpace args now stdin net Run) = resultsBody (probeAll_A net ds) now \<and>
           ran (main_A TrimSpace args now stdin net Run) =
             [([''mail'', ''-s'', mailSubject, args ! 0], resultsBody (probeAll_A net ds) now)]"
proof -
  show "main_A TrimSpace args now stdin net Run =
      \<lparr>status = 0, stdout = [], stderr = [], dialled = map (\<lambda>d. d @ '':443'') ds, ran = []\<rparr>"
    if "\<forall>i \<in> set (probeAll_A net ds). err i = None \<and> Sub (end' i) now > notifyExpiryThreshold"
  proof -
    from that have "all (probeAll_A net ds) (\<lambda>i. \<not> needsNotify_A i now)"
      by (auto simp: all_iff needsNotify_A_iff)
    with assms(1-3) show ?thesis
      by (simp add: main_A_def Let_def start_def)
  qed
  show "stdout (main_A TrimSpace args now stdin net Run) = resultsBody (probeAll_A net ds) now \<and>
      ran (main_A TrimSpace args now stdin net Run) =
        [([''mail'', ''-s'', mailSubject, args ! 0], resultsBody (probeAll_A net ds) now)]"
    if "\<exists>i \<in> set (probeAll_A net ds). err i \<noteq> None \<or> Sub (end' i) now \<le> notifyExpiryThreshold"
  proof -
    from that have "\<not> all (probeAll_A net ds) (\<lambda>i. \<not> needsNotify_A i now)"
      by (auto simp: all_iff needsNotify_A_iff)
    with assms(1-3) show ?thesis
      by (simp add: main_A_def Let_def start_def Fatal_def split: option.split)
  qed
qed

text \<open>The fan-out keeps the order of the input: slot \<open>k\<close> holds the domain at index \<open>k\<close>.\<close>

lemma probeAll_order: "map domain (probeAll net ds) = ds"
proof -
  have "map domain (probeAll net ds) = map (\<lambda>idx. ds ! idx) [0 ..< length ds]"
    by (simp add: probeAll_def split: prod.split)
  then show ?thesis
    by (simp add: map_nth)
qed

text \<open>
  The saturation of \<open>Sub\<close> changes no classification: every comparison gives the
  same answer on the saturated difference as on the exact one, and in the bucket of days
  the difference is exact.
\<close>

lemma expiryInfo_exact:
  "expiryInfo e now =
     (if e - now > expiryThreshold then ''ok''
      else if e - now < 0 then ''already expired''
      else if e - now < 24 * Hour then ''expires in less than a day''
      else ''expires in '' @ fmtInt ((e - now) div (24 * Hour)) @ '' '' @
           (if (e - now) div (24 * Hour) = 1 then ''day'' else ''days''))"
proof -
  consider "e - now > maxDuration" | "e - now < minDuration"
    | "minDuration \<le> e - now \<and> e - now \<le> maxDuration"
    by linarith
  then show ?thesis
  proof cases
    case 1
    then have "Sub e now = maxDuration"
      by (simp add: Sub_def)
    with 1 show ?thesis
      by (simp add: expiryInfo_buckets expiryThreshold_val maxDuration_def)
  next
    case 2
    then have "Sub e now = minDuration"
      by (simp add: Sub_def maxDuration_def minDuration_def)
    with 2 show ?thesis
      by (simp add: expiryInfo_buckets expiryThreshold_val minDuration_def)
  next
    case 3
    then have "Sub e now = e - now"
      by (simp add: Sub_def)
    then show ?thesis
      by (simp add: expiryInfo_buckets)
  qed
qed

end
